theory Spec2Isabelle
  imports Main
begin

section \<open>Python values and text\<close>

text \<open>
  The sources are Python. Integers are unbounded (\<open>int\<close>), texts are \<open>string\<close>, and
  every \<open>raise\<close> of the interpreter that the modelled code can reach is a value of
  \<open>py_error\<close>, returned as \<open>Inl\<close> of a sum.
\<close>

datatype py_error = AttributeError | KeyError | IndexError

text \<open>
  \<open>str.lower()\<close> on ASCII text: the letters \<open>A\<close> to \<open>Z\<close> move to \<open>a\<close> to \<open>z\<close>,
  every other byte stays. The texts of the rule data (subclass names, option names,
  durations) are ASCII. A capital letter has bit 5 clear, and setting it adds 32.
\<close>

definition lower_char :: "char \<Rightarrow> char" where
  "lower_char c =
     (let n = (of_char c :: nat)
      in if 65 \<le> n \<and> n \<le> 90
         then Char (digit0 c) (digit1 c) (digit2 c) (digit3 c) (digit4 c) True (digit6 c) (digit7 c)
         else c)"

definition lower :: "string \<Rightarrow> string" where
  "lower s = map lower_char s"

text \<open>
  \<open>needle in hay\<close> on two texts: \<open>needle\<close> occurs in \<open>hay\<close> as a contiguous run.
\<close>

primrec py_in :: "string \<Rightarrow> string \<Rightarrow> bool" where
  "py_in needle [] = (needle = [])"
| "py_in needle (c # cs) = (take (length needle) (c # cs) = needle \<or> py_in needle cs)"

text \<open>
  Reading \<open>row[col]\<close> from a tuple: columns \<open>0 \<dots> len - 1\<close> count from the front,
  columns \<open>-len \<dots> -1\<close> from the back, any other column raises \<open>IndexError\<close>.
\<close>

definition py_index :: "'a list \<Rightarrow> int \<Rightarrow> py_error + 'a" where
  "py_index row col =
     (if 0 \<le> col \<and> col < int (length row) then Inr (row ! nat col)
      else if col < 0 \<and> - int (length row) \<le> col
        then Inr (row ! nat (int (length row) + col))
      else Inl IndexError)"

text \<open>
  The attribute \<open>spellcasting_ability\<close> is untyped in \<open>CharClass\<close> and annotated
  \<open>Optional[bool]\<close> in \<open>SubClass\<close>; the rule data stores the name of an ability there.
  \<open>pyval\<close> holds these values, \<open>truthy\<close> is their truth value, and \<open>py_or\<close> is
  Python's \<open>a or b\<close>, which returns \<open>a\<close> itself when \<open>a\<close> is true and \<open>b\<close> otherwise.
\<close>

datatype pyval = PyNone | PyBool bool | PyStr string

fun truthy :: "pyval \<Rightarrow> bool" where
  "truthy PyNone = False"
| "truthy (PyBool b) = b"
| "truthy (PyStr s) = (s \<noteq> [])"

definition py_or :: "pyval \<Rightarrow> pyval \<Rightarrow> pyval" where
  "py_or a b = (if truthy a then a else b)"

section \<open>Spells (spells.py)\<close>

text \<open>
  A \<open>Spell\<close> subtype only sets class attributes and \<open>Spell\<close> has no constructor of its
  own, so a spell type and a fresh instance \<open>S()\<close> of it carry the same attributes: one
  record serves for both.
\<close>

record Spell =
  sp_level :: int
  sp_name :: string
  sp_casting_time :: string
  sp_casting_range :: string
  sp_components :: "string list"
  sp_materials :: string
  sp_duration :: string
  sp_ritual :: bool
  sp_concentration_flag :: bool
  sp_magic_school :: string
  sp_classes :: "string list"

text \<open>\<open>Spell.__eq__\<close>.\<close>

definition Spell_eq :: "Spell \<Rightarrow> Spell \<Rightarrow> bool" where
  "Spell_eq self other \<longleftrightarrow> sp_name self = sp_name other \<and> sp_level self = sp_level other"

text \<open>The property \<open>Spell.concentration\<close> and its setter, which writes \<open>_concentration\<close>.\<close>

definition concentration :: "Spell \<Rightarrow> bool" where
  "concentration self \<longleftrightarrow>
     py_in ''concentration'' (lower (sp_duration self)) \<or> sp_concentration_flag self"

definition set_concentration :: "Spell \<Rightarrow> bool \<Rightarrow> Spell" where
  "set_concentration self val = self\<lparr>sp_concentration_flag := val\<rparr>"

text \<open>The property \<open>Spell.special_material\<close>.\<close>

definition special_material :: "Spell \<Rightarrow> bool" where
  "special_material self \<longleftrightarrow> py_in ''worth'' (lower (sp_materials self))"

section \<open>Features (features.py)\<close>

text \<open>
  A \<open>Feature\<close> subtype is a set of class attributes (\<open>Feature_type\<close>); an instance
  (\<open>Feature\<close>) reads them unless it has set its own. The owner of a feature is a
  back-reference to a character, kept here as the character's identity.
\<close>

record Feature_type =
  ft_name :: string
  ft_source :: string
  ft_doc :: "string option"
  ft_needs_implementation :: bool
  ft_spells_known :: "Spell list"
  ft_spells_prepared :: "Spell list"

record Feature =
  f_name :: string
  f_source :: string
  f_doc :: "string option"
  f_needs_implementation :: bool
  f_owner :: "nat option"
  f_spells_known :: "Spell list"
  f_spells_prepared :: "Spell list"

text \<open>\<open>Feature.__eq__\<close>.\<close>

definition Feature_eq :: "Feature \<Rightarrow> Feature \<Rightarrow> bool" where
  "Feature_eq self other \<longleftrightarrow> f_name self = f_name other \<and> f_source self = f_source other"

text \<open>
  The character that owns classes and features. Its class is not part of these sources;
  the model keeps what the code here touches: an identity, the features the character
  holds when a class is constructed, and the names of the attributes that class
  constructors have set on it.
\<close>

record Character =
  ch_id :: nat
  ch_features :: "Feature list"
  ch_attrs :: "string list"

text \<open>
  Modelled from the spec: \<open>Character.has_feature\<close> is called by the selector and is not
  in these sources. The owner answers whether it already holds a feature equal to the
  given feature type, equality being by name and source.
\<close>

definition has_feature :: "Character \<Rightarrow> Feature_type \<Rightarrow> bool" where
  "has_feature ch ft \<longleftrightarrow>
     list_ex (\<lambda>f. f_name f = ft_name ft \<and> f_source f = ft_source ft) (ch_features ch)"

text \<open>
  \<open>Feature.__init__\<close>, run by \<open>feat_class(owner=owner)\<close>: the owner is bound and the
  declared spells are instantiated.
\<close>

definition Feature_init :: "Feature_type \<Rightarrow> Character option \<Rightarrow> Feature" where
  "Feature_init ft owner =
     \<lparr>f_name = ft_name ft, f_source = ft_source ft, f_doc = ft_doc ft,
      f_needs_implementation = ft_needs_implementation ft,
      f_owner = map_option ch_id owner,
      f_spells_known = ft_spells_known ft,
      f_spells_prepared = ft_spells_prepared ft\<rparr>"

text \<open>
  A \<open>FeatureSelector\<close> subtype: its \<open>options\<close> dictionary from option name to feature
  type, its name, source and docstring.
\<close>

record FeatureSelector =
  sel_options :: "string \<rightharpoonup> Feature_type"
  sel_name :: string
  sel_source :: string
  sel_doc :: "string option"

text \<open>
  The first five statements of \<open>FeatureSelector.__new__\<close>: a bare \<open>Feature\<close> made by
  \<open>Feature.__new__\<close>, so \<open>Feature.__init__\<close> has not run on it and its owner and spell
  lists are the defaults of \<open>Feature\<close>; it takes the selector's docstring, name and
  source and is flagged \<open>needs_implementation\<close>.
\<close>

definition placeholder :: "FeatureSelector \<Rightarrow> Feature" where
  "placeholder t =
     \<lparr>f_name = sel_name t, f_source = sel_source t, f_doc = sel_doc t,
      f_needs_implementation = True, f_owner = None,
      f_spells_known = [], f_spells_prepared = []\<rparr>"

text \<open>
  The loop of \<open>FeatureSelector.__new__\<close> over \<open>feature_choices\<close>, with \<open>new_feat\<close> as
  the loop state. The loop has no \<open>break\<close>: every choice is visited. Calling
  \<open>has_feature\<close> on the owner \<open>None\<close> raises \<open>AttributeError\<close>.
\<close>

fun select_loop ::
  "FeatureSelector \<Rightarrow> Character option \<Rightarrow> Feature \<Rightarrow> string list \<Rightarrow> py_error + Feature"
where
  "select_loop t owner new_feat [] = Inr new_feat"
| "select_loop t owner new_feat (selection # rest) =
     (case sel_options t (lower selection) of
        None \<Rightarrow> select_loop t owner new_feat rest
      | Some feat_class \<Rightarrow>
          (case owner of
             None \<Rightarrow> Inl AttributeError
           | Some ch \<Rightarrow>
               if has_feature ch feat_class then select_loop t owner new_feat rest
               else select_loop t owner
                      ((Feature_init feat_class owner)\<lparr>f_source := sel_source t\<rparr>) rest))"

definition FeatureSelector_new ::
  "FeatureSelector \<Rightarrow> Character option \<Rightarrow> string list \<Rightarrow> py_error + Feature"
where
  "FeatureSelector_new t owner feature_choices =
     select_loop t owner (placeholder t) feature_choices"

section \<open>Classes and subclasses (classes.py)\<close>

text \<open>
  An entry of a class-level \<open>features_by_level\<close> list is a type. The constructor tests
  it with \<open>issubclass\<close>: a selector, another feature, or neither (then it is skipped).
\<close>

datatype feature_decl = Selector FeatureSelector | PlainFeature Feature_type | NotAFeature

text \<open>
  A spell-slot table is indexed \<open>[level][spell_level]\<close>. Modelled from the spec: the
  tables themselves belong to the rule data, which is not in these sources; a table is a
  dictionary from class level to a row of slot counts, written here as an association
  list with distinct keys. An empty table is false for \<open>or\<close>, as every empty container.
\<close>

type_synonym slot_table = "(int \<times> int list) list"

definition py_or_table :: "slot_table option \<Rightarrow> slot_table option \<Rightarrow> slot_table option" where
  "py_or_table a b = (case a of None \<Rightarrow> b | Some [] \<Rightarrow> b | Some (r # rs) \<Rightarrow> a)"

text \<open>
  The class attributes of a concrete \<open>SubClass\<close> subtype. A class-level
  \<open>features_by_level\<close> is a \<open>defaultdict(list)\<close>: reading any level gives a list,
  empty where nothing is declared.
\<close>

record SubClass_type =
  sct_name :: string
  sct_doc :: "string option"
  sct_features_by_level :: "int \<Rightarrow> feature_decl list"
  sct_weapon_proficiencies :: "string list"
  sct_proficiencies_text :: "string list"
  sct_spellcasting_ability :: pyval
  sct_spell_slots_by_level :: "slot_table option"
  sct_spells_known :: "Spell list"
  sct_spells_prepared :: "Spell list"

text \<open>A \<open>SubClass\<close> instance: its type, and what \<open>SubClass.__init__\<close> sets.\<close>

record SubClass =
  sub_type :: SubClass_type
  sub_owner :: "Character option"
  sub_doc :: string

text \<open>The docstring of \<open>SubClass\<close>, without its surrounding white space.\<close>

definition SubClass_doc :: string where
  "SubClass_doc = ''A generic subclass object. Add more detail in the __doc__ attribute.''"

definition SubClass_init :: "SubClass_type \<Rightarrow> Character option \<Rightarrow> SubClass" where
  "SubClass_init sc own =
     \<lparr>sub_type = sc, sub_owner = own,
      sub_doc = (case sct_doc sc of None \<Rightarrow> SubClass_doc
                 | Some d \<Rightarrow> if d = [] then SubClass_doc else d)\<rparr>"

text \<open>The class attributes that a concrete \<open>CharClass\<close> subtype declares.\<close>

record CharClass_type =
  ct_name :: string
  ct_hit_dice_faces :: int
  ct_subclass_select_level :: int
  ct_weapon_proficiencies :: "string list"
  ct_proficiencies_text :: "string list"
  ct_multiclass_weapon_proficiencies :: "string list"
  ct_multiclass_proficiencies_text :: "string list"
  ct_saving_throw_proficiencies :: "string list"
  ct_primary_abilities :: "string list"
  ct_languages :: "string list"
  ct_class_skill_choices :: "string list"
  ct_num_skill_choices :: int
  ct_spellcasting_ability :: pyval
  ct_spell_slots_by_level :: "slot_table option"
  ct_spells_known :: "Spell list"
  ct_spells_prepared :: "Spell list"
  ct_subclasses_available :: "SubClass_type list"
  ct_features_by_level :: "int \<Rightarrow> feature_decl list"

text \<open>
  The per-instance \<open>features_by_level\<close> is a dictionary from level to a list of feature
  instances. The constructor makes a \<open>defaultdict(list)\<close>, whose missing keys read as
  the empty list; a keyword parameter can put a plain \<open>dict\<close> in its place, whose missing
  keys raise \<open>KeyError\<close>. \<open>dd_default\<close> tells the two apart. The lists of a dictionary are
  taken to be distinct objects. A read of a missing key of a \<open>defaultdict\<close> also stores
  the empty list under it; the read itself is what \<open>dict_get\<close> gives.
\<close>

record level_dict =
  dd_default :: bool
  dd_items :: "int \<rightharpoonup> Feature list"

definition dd_get :: "(int \<rightharpoonup> 'a list) \<Rightarrow> int \<Rightarrow> 'a list" where
  "dd_get m k = (case m k of None \<Rightarrow> [] | Some v \<Rightarrow> v)"

definition dict_get :: "level_dict \<Rightarrow> int \<Rightarrow> py_error + Feature list" where
  "dict_get d k =
     (case dd_items d k of
        Some v \<Rightarrow> Inr v
      | None \<Rightarrow> if dd_default d then Inr [] else Inl KeyError)"

text \<open>
  A \<open>CharClass\<close> instance: every attribute reads the instance's own value, which starts
  as the class attribute. The attribute \<open>subclass\<close> is the field \<open>subclass_obj\<close>.
\<close>

record CharClass =
  name :: string
  level :: int
  owner :: "Character option"
  hit_dice_faces :: int
  subclass_select_level :: int
  weapon_proficiencies :: "string list"
  proficiencies_text :: "string list"
  multiclass_weapon_proficiencies :: "string list"
  multiclass_proficiencies_text :: "string list"
  saving_throw_proficiencies :: "string list"
  primary_abilities :: "string list"
  languages :: "string list"
  class_skill_choices :: "string list"
  num_skill_choices :: int
  spellcasting_ability :: pyval
  spell_slots_by_level :: "slot_table option"
  spells_known :: "Spell list"
  spells_prepared :: "Spell list"
  subclass_obj :: "SubClass option"
  subclasses_available :: "SubClass_type list"
  features_by_level :: level_dict

text \<open>
  The inner loop shared by \<open>__init__\<close> and \<open>apply_subclass\<close>: \<open>fs\<close> collects one
  instance for each declared feature type, selectors resolved against
  \<open>feature_choices\<close>.
\<close>

fun instantiate_all ::
  "Character option \<Rightarrow> string list \<Rightarrow> Feature list \<Rightarrow> feature_decl list
     \<Rightarrow> py_error + Feature list"
where
  "instantiate_all own feature_choices fs [] = Inr fs"
| "instantiate_all own feature_choices fs (Selector t # rest) =
     (case FeatureSelector_new t own feature_choices of
        Inl e \<Rightarrow> Inl e
      | Inr x \<Rightarrow> instantiate_all own feature_choices (fs @ [x]) rest)"
| "instantiate_all own feature_choices fs (PlainFeature ft # rest) =
     instantiate_all own feature_choices (fs @ [Feature_init ft own]) rest"
| "instantiate_all own feature_choices fs (NotAFeature # rest) =
     instantiate_all own feature_choices fs rest"

text \<open>
  The loop \<open>for i in range(1, 21)\<close> of \<open>__init__\<close>, which stores each level's list in
  the fresh dictionary.
\<close>

fun init_levels ::
  "Character option \<Rightarrow> string list \<Rightarrow> (int \<Rightarrow> feature_decl list) \<Rightarrow> level_dict
     \<Rightarrow> int list \<Rightarrow> py_error + level_dict"
where
  "init_levels own feature_choices decl d [] = Inr d"
| "init_levels own feature_choices decl d (i # rest) =
     (case instantiate_all own feature_choices [] (decl i) of
        Inl e \<Rightarrow> Inl e
      | Inr fs \<Rightarrow>
          init_levels own feature_choices decl (d\<lparr>dd_items := (dd_items d)(i \<mapsto> fs)\<rparr>) rest)"

text \<open>
  The loop \<open>for i in range(1, 21)\<close> of \<open>apply_subclass\<close>: the subclass's features for
  the level are instantiated first, then \<open>self.features_by_level[i]\<close> is read and the
  list found there is extended.
\<close>

fun extend_levels ::
  "Character option \<Rightarrow> string list \<Rightarrow> (int \<Rightarrow> feature_decl list) \<Rightarrow> level_dict
     \<Rightarrow> int list \<Rightarrow> py_error + level_dict"
where
  "extend_levels own feature_choices decl d [] = Inr d"
| "extend_levels own feature_choices decl d (i # rest) =
     (case instantiate_all own feature_choices [] (decl i) of
        Inl e \<Rightarrow> Inl e
      | Inr fs \<Rightarrow>
          (case dict_get d i of
             Inl e \<Rightarrow> Inl e
           | Inr cur \<Rightarrow>
               extend_levels own feature_choices decl
                 (d\<lparr>dd_items := (dd_items d)(i \<mapsto> cur @ fs)\<rparr>) rest))"

text \<open>
  The extra keyword parameters \<open>**params\<close>, each applied with \<open>setattr\<close>. A parameter
  here names a data attribute that \<open>CharClass\<close> declares and carries a value of that
  attribute's kind, or names one of the two read-only properties (assigning to a
  property without a setter raises \<open>AttributeError\<close>). The keys \<open>level\<close>, \<open>owner\<close>,
  \<open>subclass\<close> and \<open>feature_choices\<close> are parameters of the constructor and cannot occur.
  Keys that name a method, a special attribute or nothing the class declares are not
  values of this type.
\<close>

datatype param =
    Set_name string
  | Set_hit_dice_faces int
  | Set_subclass_select_level int
  | Set_weapon_proficiencies "string list"
  | Set_proficiencies_text "string list"
  | Set_multiclass_weapon_proficiencies "string list"
  | Set_multiclass_proficiencies_text "string list"
  | Set_saving_throw_proficiencies "string list"
  | Set_primary_abilities "string list"
  | Set_languages "string list"
  | Set_class_skill_choices "string list"
  | Set_num_skill_choices int
  | Set_spellcasting_ability pyval
  | Set_spell_slots_by_level "slot_table option"
  | Set_spells_known "Spell list"
  | Set_spells_prepared "Spell list"
  | Set_subclasses_available "SubClass_type list"
  | Set_features_by_level level_dict
  | Set_features
  | Set_is_spellcaster

fun set_param :: "CharClass \<Rightarrow> param \<Rightarrow> py_error + CharClass" where
  "set_param self (Set_name v) = Inr (self\<lparr>name := v\<rparr>)"
| "set_param self (Set_hit_dice_faces v) = Inr (self\<lparr>hit_dice_faces := v\<rparr>)"
| "set_param self (Set_subclass_select_level v) = Inr (self\<lparr>subclass_select_level := v\<rparr>)"
| "set_param self (Set_weapon_proficiencies v) = Inr (self\<lparr>weapon_proficiencies := v\<rparr>)"
| "set_param self (Set_proficiencies_text v) = Inr (self\<lparr>proficiencies_text := v\<rparr>)"
| "set_param self (Set_multiclass_weapon_proficiencies v) =
     Inr (self\<lparr>multiclass_weapon_proficiencies := v\<rparr>)"
| "set_param self (Set_multiclass_proficiencies_text v) =
     Inr (self\<lparr>multiclass_proficiencies_text := v\<rparr>)"
| "set_param self (Set_saving_throw_proficiencies v) =
     Inr (self\<lparr>saving_throw_proficiencies := v\<rparr>)"
| "set_param self (Set_primary_abilities v) = Inr (self\<lparr>primary_abilities := v\<rparr>)"
| "set_param self (Set_languages v) = Inr (self\<lparr>languages := v\<rparr>)"
| "set_param self (Set_class_skill_choices v) = Inr (self\<lparr>class_skill_choices := v\<rparr>)"
| "set_param self (Set_num_skill_choices v) = Inr (self\<lparr>num_skill_choices := v\<rparr>)"
| "set_param self (Set_spellcasting_ability v) = Inr (self\<lparr>spellcasting_ability := v\<rparr>)"
| "set_param self (Set_spell_slots_by_level v) = Inr (self\<lparr>spell_slots_by_level := v\<rparr>)"
| "set_param self (Set_spells_known v) = Inr (self\<lparr>spells_known := v\<rparr>)"
| "set_param self (Set_spells_prepared v) = Inr (self\<lparr>spells_prepared := v\<rparr>)"
| "set_param self (Set_subclasses_available v) = Inr (self\<lparr>subclasses_available := v\<rparr>)"
| "set_param self (Set_features_by_level v) = Inr (self\<lparr>features_by_level := v\<rparr>)"
| "set_param self Set_features = Inl AttributeError"
| "set_param self Set_is_spellcaster = Inl AttributeError"

fun apply_params :: "CharClass \<Rightarrow> param list \<Rightarrow> py_error + CharClass" where
  "apply_params self [] = Inr self"
| "apply_params self (p # ps) =
     (case set_param self p of Inl e \<Rightarrow> Inl e | Inr self' \<Rightarrow> apply_params self' ps)"

text \<open>
  \<open>CharClass.select_subclass\<close>. The result is paired with the warnings it emits. The
  loop returns at the first candidate whose lowered name contains the lowered text.
\<close>

fun subclass_loop :: "Character option \<Rightarrow> string \<Rightarrow> SubClass_type list \<Rightarrow> SubClass option" where
  "subclass_loop own subclass_str [] = None"
| "subclass_loop own subclass_str (sc # rest) =
     (if py_in (lower subclass_str) (lower (sct_name sc)) then Some (SubClass_init sc own)
      else subclass_loop own subclass_str rest)"

definition select_subclass :: "CharClass \<Rightarrow> string option \<Rightarrow> SubClass option \<times> string list" where
  "select_subclass self subclass_str =
     (case subclass_str of
        None \<Rightarrow> (None, [])
      | Some s \<Rightarrow>
          if s \<in> set ['''', ''None'', ''none''] then (None, [])
          else (case subclass_loop (owner self) s (subclasses_available self) of
                  Some sc \<Rightarrow> (Some sc, [])
                | None \<Rightarrow> (None, [''Could not find subclass '' @ s @ ''.''])))"

text \<open>\<open>CharClass.apply_subclass\<close>.\<close>

definition apply_subclass :: "CharClass \<Rightarrow> string list \<Rightarrow> py_error + CharClass" where
  "apply_subclass self feature_choices =
     (case subclass_obj self of
        None \<Rightarrow> Inr self
      | Some subcls \<Rightarrow>
          (case extend_levels (owner self) feature_choices
                  (sct_features_by_level (sub_type subcls)) (features_by_level self) [1..20] of
             Inl e \<Rightarrow> Inl e
           | Inr fbl \<Rightarrow>
               Inr (self\<lparr>features_by_level := fbl,
                 weapon_proficiencies :=
                   weapon_proficiencies self @ sct_weapon_proficiencies (sub_type subcls),
                 proficiencies_text :=
                   proficiencies_text self @ sct_proficiencies_text (sub_type subcls),
                 multiclass_weapon_proficiencies :=
                   multiclass_weapon_proficiencies self
                     @ sct_weapon_proficiencies (sub_type subcls),
                 multiclass_proficiencies_text :=
                   multiclass_proficiencies_text self
                     @ sct_proficiencies_text (sub_type subcls),
                 spellcasting_ability :=
                   py_or (spellcasting_ability self)
                     (sct_spellcasting_ability (sub_type subcls)),
                 spell_slots_by_level :=
                   py_or_table (spell_slots_by_level self)
                     (sct_spell_slots_by_level (sub_type subcls)),
                 spells_known := spells_known self @ sct_spells_known (sub_type subcls),
                 spells_prepared :=
                   spells_prepared self @ sct_spells_prepared (sub_type subcls)\<rparr>)))"

text \<open>
  \<open>CharClass.__init__\<close>. \<open>setattr(self.owner, self.name, self)\<close> raises
  \<open>AttributeError\<close> on the owner \<open>None\<close>; on a character it records the attribute. The
  result is the instance together with the warnings emitted.
\<close>

definition setattr_owner :: "Character \<Rightarrow> string \<Rightarrow> Character" where
  "setattr_owner ch attr = ch\<lparr>ch_attrs := List.insert attr (ch_attrs ch)\<rparr>"

definition CharClass_init ::
  "CharClass_type \<Rightarrow> int \<Rightarrow> Character option \<Rightarrow> string option \<Rightarrow> string list \<Rightarrow> param list
     \<Rightarrow> py_error + CharClass \<times> string list"
where
  "CharClass_init cls lvl own subclass_str feature_choices params =
     (case own of
        None \<Rightarrow> Inl AttributeError
      | Some ch \<Rightarrow>
          (let own' = Some (setattr_owner ch (ct_name cls)) in
           case init_levels own' feature_choices (ct_features_by_level cls)
                  \<lparr>dd_default = True, dd_items = Map.empty\<rparr> [1..20] of
             Inl e \<Rightarrow> Inl e
           | Inr fbl \<Rightarrow>
               (case apply_params
                       \<lparr>name = ct_name cls, level = lvl, owner = own',
                        hit_dice_faces = ct_hit_dice_faces cls,
                        subclass_select_level = ct_subclass_select_level cls,
                        weapon_proficiencies = ct_weapon_proficiencies cls,
                        proficiencies_text = ct_proficiencies_text cls,
                        multiclass_weapon_proficiencies = ct_multiclass_weapon_proficiencies cls,
                        multiclass_proficiencies_text = ct_multiclass_proficiencies_text cls,
                        saving_throw_proficiencies = ct_saving_throw_proficiencies cls,
                        primary_abilities = ct_primary_abilities cls,
                        languages = ct_languages cls,
                        class_skill_choices = ct_class_skill_choices cls,
                        num_skill_choices = ct_num_skill_choices cls,
                        spellcasting_ability = ct_spellcasting_ability cls,
                        spell_slots_by_level = ct_spell_slots_by_level cls,
                        spells_known = ct_spells_known cls,
                        spells_prepared = ct_spells_prepared cls,
                        subclass_obj = None,
                        subclasses_available = ct_subclasses_available cls,
                        features_by_level = fbl\<rparr> params of
                  Inl e \<Rightarrow> Inl e
                | Inr self1 \<Rightarrow>
                    (let self2 = self1\<lparr>spells_known := ct_spells_known cls,
                                       spells_prepared := ct_spells_prepared cls\<rparr>;
                         sel = select_subclass self2 subclass_str;
                         self3 = self2\<lparr>subclass_obj := fst sel\<rparr>
                     in case fst sel of
                          None \<Rightarrow> Inr (self3, snd sel)
                        | Some sc \<Rightarrow>
                            (case apply_subclass self3 feature_choices of
                               Inl e \<Rightarrow> Inl e
                             | Inr self4 \<Rightarrow> Inr (self4, snd sel))))))"



text \<open>The property \<open>is_spellcaster\<close>, and \<open>spell_slots\<close>.\<close>

definition is_spellcaster :: "CharClass \<Rightarrow> bool" where
  "is_spellcaster self \<longleftrightarrow> spellcasting_ability self \<noteq> PyNone"

definition spell_slots :: "CharClass \<Rightarrow> int \<Rightarrow> py_error + int" where
  "spell_slots self spell_level =
     (case spell_slots_by_level self of
        None \<Rightarrow> Inr 0
      | Some tbl \<Rightarrow>
          (case map_of tbl (level self) of
             None \<Rightarrow> Inl KeyError
           | Some row \<Rightarrow> py_index row spell_level))"

section \<open>Rule data used in the examples\<close>

text \<open>
  A small ruleset in the shape of the catalogue the classes consume: a fighter with a
  fighting-style selector, two subclasses, and a concentration spell.
\<close>

definition ex_archery :: Feature_type where
  "ex_archery =
     \<lparr>ft_name = ''Archery'', ft_source = ''Fighter'', ft_doc = None,
      ft_needs_implementation = False, ft_spells_known = [], ft_spells_prepared = []\<rparr>"

definition ex_defense :: Feature_type where
  "ex_defense =
     \<lparr>ft_name = ''Defense'', ft_source = ''Fighter'', ft_doc = None,
      ft_needs_implementation = False, ft_spells_known = [], ft_spells_prepared = []\<rparr>"

definition ex_second_wind :: Feature_type where
  "ex_second_wind =
     \<lparr>ft_name = ''Second Wind'', ft_source = ''Fighter'', ft_doc = None,
      ft_needs_implementation = False, ft_spells_known = [], ft_spells_prepared = []\<rparr>"

definition ex_action_surge :: Feature_type where
  "ex_action_surge =
     \<lparr>ft_name = ''Action Surge'', ft_source = ''Fighter'', ft_doc = None,
      ft_needs_implementation = False, ft_spells_known = [], ft_spells_prepared = []\<rparr>"

definition ex_improved_critical :: Feature_type where
  "ex_improved_critical =
     \<lparr>ft_name = ''Improved Critical'', ft_source = ''Fighter (Champion)'', ft_doc = None,
      ft_needs_implementation = False, ft_spells_known = [], ft_spells_prepared = []\<rparr>"

definition ex_fighting_style :: FeatureSelector where
  "ex_fighting_style =
     \<lparr>sel_options = [''archery'' \<mapsto> ex_archery, ''defense'' \<mapsto> ex_defense],
      sel_name = ''Fighting Style (Select One)'', sel_source = ''Fighter'',
      sel_doc = Some ''Select a Fighting Style by choosing in feature_choices''\<rparr>"

definition ex_champion :: SubClass_type where
  "ex_champion =
     \<lparr>sct_name = ''Champion'', sct_doc = None,
      sct_features_by_level = (\<lambda>i. if i = 3 then [PlainFeature ex_improved_critical] else []),
      sct_weapon_proficiencies = [], sct_proficiencies_text = [],
      sct_spellcasting_ability = PyNone, sct_spell_slots_by_level = None,
      sct_spells_known = [], sct_spells_prepared = []\<rparr>"

definition ex_eldritch_knight :: SubClass_type where
  "ex_eldritch_knight =
     \<lparr>sct_name = ''Eldritch Knight'', sct_doc = None,
      sct_features_by_level = (\<lambda>i. []),
      sct_weapon_proficiencies = [], sct_proficiencies_text = [],
      sct_spellcasting_ability = PyStr ''intelligence'',
      sct_spell_slots_by_level = Some [(3, [2, 2, 0]), (4, [2, 3, 0])],
      sct_spells_known = [], sct_spells_prepared = []\<rparr>"

definition ex_fighter :: CharClass_type where
  "ex_fighter =
     \<lparr>ct_name = ''Fighter'', ct_hit_dice_faces = 10, ct_subclass_select_level = 3,
      ct_weapon_proficiencies = [''simple weapons'', ''martial weapons''],
      ct_proficiencies_text = [''All armor''],
      ct_multiclass_weapon_proficiencies = [], ct_multiclass_proficiencies_text = [],
      ct_saving_throw_proficiencies = [''strength'', ''constitution''],
      ct_primary_abilities = [''strength''], ct_languages = [],
      ct_class_skill_choices = [''Acrobatics'', ''Athletics''], ct_num_skill_choices = 2,
      ct_spellcasting_ability = PyNone, ct_spell_slots_by_level = None,
      ct_spells_known = [], ct_spells_prepared = [],
      ct_subclasses_available = [ex_champion, ex_eldritch_knight],
      ct_features_by_level =
        (\<lambda>i. if i = 1 then [Selector ex_fighting_style, PlainFeature ex_second_wind]
             else if i = 2 then [PlainFeature ex_action_surge] else [])\<rparr>"

definition ex_character :: Character where
  "ex_character = \<lparr>ch_id = 1, ch_features = [], ch_attrs = []\<rparr>"

definition ex_hold_person :: Spell where
  "ex_hold_person =
     \<lparr>sp_level = 2, sp_name = ''Hold Person'', sp_casting_time = ''1 action'',
      sp_casting_range = ''60 feet'', sp_components = [''V'', ''S'', ''M''],
      sp_materials = ''A small, straight piece of iron'',
      sp_duration = ''Concentration, up to 1 minute'', sp_ritual = False,
      sp_concentration_flag = False, sp_magic_school = ''Enchantment'',
      sp_classes = [''Bard'', ''Cleric'']\<rparr>"

definition ex_guarded_fighter :: CharClass_type where
  "ex_guarded_fighter =
     ex_fighter\<lparr>ct_spellcasting_ability := PyBool False, ct_spell_slots_by_level := Some []\<rparr>"

definition ex_fighter_instance :: CharClass where
  "ex_fighter_instance =
     \<lparr>name = ''Fighter'', level = 3, owner = Some ex_character, hit_dice_faces = 10,
      subclass_select_level = 3,
      weapon_proficiencies = [''simple weapons'', ''martial weapons''],
      proficiencies_text = [''All armor''],
      multiclass_weapon_proficiencies = [], multiclass_proficiencies_text = [],
      saving_throw_proficiencies = [''strength'', ''constitution''],
      primary_abilities = [''strength''], languages = [],
      class_skill_choices = [''Acrobatics'', ''Athletics''], num_skill_choices = 2,
      spellcasting_ability = PyNone, spell_slots_by_level = None,
      spells_known = [], spells_prepared = [],
      subclass_obj = Some (SubClass_init ex_eldritch_knight (Some ex_character)),
      subclasses_available = [ex_champion, ex_eldritch_knight],
      features_by_level = \<lparr>dd_default = True, dd_items = Map.empty\<rparr>\<rparr>"

section \<open>Descriptions used in the statements\<close>

text \<open>
  A choice text is eligible for a selector when its lowered form is a key of the options
  and the owner does not hold the feature of that option yet; \<open>granted\<close> is the feature
  such a choice yields, the option's feature with the selector's source.
\<close>

definition eligible :: "FeatureSelector \<Rightarrow> Character \<Rightarrow> string \<Rightarrow> bool" where
  "eligible t ch s =
     (case sel_options t (lower s) of None \<Rightarrow> False | Some ft \<Rightarrow> \<not> has_feature ch ft)"

definition granted :: "FeatureSelector \<Rightarrow> Character \<Rightarrow> string \<Rightarrow> Feature" where
  "granted t ch s =
     (case sel_options t (lower s) of
        None \<Rightarrow> placeholder t
      | Some ft \<Rightarrow> (Feature_init ft (Some ch))\<lparr>f_source := sel_source t\<rparr>)"

text \<open>
  Two readings of the resolution: the last eligible choice decides, or the first one
  does. Without an eligible choice both give the placeholder.
\<close>

definition last_eligible :: "FeatureSelector \<Rightarrow> Character \<Rightarrow> string list \<Rightarrow> Feature" where
  "last_eligible t ch choices =
     (case filter (eligible t ch) choices of
        [] \<Rightarrow> placeholder t
      | e # es \<Rightarrow> granted t ch (last (e # es)))"

definition first_eligible :: "FeatureSelector \<Rightarrow> Character \<Rightarrow> string list \<Rightarrow> Feature" where
  "first_eligible t ch choices =
     (case filter (eligible t ch) choices of
        [] \<Rightarrow> placeholder t
      | e # es \<Rightarrow> granted t ch e)"

text \<open>The instances that a list of declared feature types yields for an owner.\<close>

fun instance_of :: "Character \<Rightarrow> string list \<Rightarrow> feature_decl \<Rightarrow> Feature list" where
  "instance_of ch choices (Selector t) = [last_eligible t ch choices]"
| "instance_of ch choices (PlainFeature ft) = [Feature_init ft (Some ch)]"
| "instance_of ch choices NotAFeature = []"

definition instances :: "Character \<Rightarrow> string list \<Rightarrow> feature_decl list \<Rightarrow> Feature list" where
  "instances ch choices decls = concat (map (instance_of ch choices) decls)"



text \<open>
  A dictionary of levels that can be read at every level from 1 to 20: a
  \<open>defaultdict\<close>, or a plain dictionary with a key for each of these levels.
\<close>

definition levels_total :: "level_dict \<Rightarrow> bool" where
  "levels_total d \<longleftrightarrow> dd_default d \<or> list_all (\<lambda>i. dd_items d i \<noteq> None) [1..20]"



text \<open>The truth value of a spell-slot table for \<open>or\<close>: present and not empty.\<close>

definition table_truthy :: "slot_table option \<Rightarrow> bool" where
  "table_truthy a = (case a of None \<Rightarrow> False | Some [] \<Rightarrow> False | Some (r # rs) \<Rightarrow> True)"




text \<open>Constructions and values used in the examples.\<close>

definition ex_choices :: "string list" where
  "ex_choices = [''Archery'', ''Defense'']"


definition ex_champion_level3 :: "py_error + CharClass \<times> string list" where
  "ex_champion_level3 =
     CharClass_init ex_fighter 3 (Some ex_character) (Some ''champion'') ex_choices []"

definition ex_guarded_knight :: "py_error + CharClass \<times> string list" where
  "ex_guarded_knight =
     CharClass_init ex_guarded_fighter 3 (Some ex_character) (Some ''Knight'') ex_choices []"




definition ex_slots :: slot_table where
  "ex_slots = [(3, [2, 2, 0]), (4, [2, 3, 0])]"

definition ex_guarded_champion :: "py_error + CharClass \<times> string list" where
  "ex_guarded_champion =
     CharClass_init ex_guarded_fighter 3 (Some ex_character) (Some ''champion'') ex_choices []"


section \<open>Auxiliary facts\<close>

lemma py_in_iff: "py_in n h \<longleftrightarrow> (\<exists>p s. h = p @ n @ s)"
proof (induction h)
  case Nil show ?case by auto
next
  case (Cons c cs)
  have "(\<exists>p s. c # cs = p @ n @ s) \<longleftrightarrow> (\<exists>s. c # cs = n @ s) \<or> (\<exists>p s. cs = p @ n @ s)"
    by (auto simp: Cons_eq_append_conv) 
  moreover have "(\<exists>s. c # cs = n @ s) \<longleftrightarrow> take (length n) (c # cs) = n"
    by (metis append_eq_conv_conj)
  ultimately show ?case using Cons by simp
qed

lemma select_loop_Some:
  "select_loop t (Some ch) nf ss =
     Inr (case filter (eligible t ch) ss of [] \<Rightarrow> nf | e # es \<Rightarrow> granted t ch (last (e # es)))"
proof (induction ss arbitrary: nf)
  case Nil show ?case by simp
next
  case (Cons s ss)
  show ?case
  proof (cases "sel_options t (lower s)")
    case None
    then show ?thesis using Cons[of nf] by (simp add: eligible_def)
  next
    case (Some ft)
    show ?thesis
    proof (cases "has_feature ch ft")
      case True
      then show ?thesis using Some Cons[of nf] by (simp add: eligible_def)
    next
      case False
      then show ?thesis using Some Cons[of "(Feature_init ft (Some ch))\<lparr>f_source := sel_source t\<rparr>"]
        by (simp add: eligible_def granted_def split: list.splits)
    qed
  qed
qed

lemma FeatureSelector_new_Some:
  "FeatureSelector_new t (Some ch) choices = Inr (last_eligible t ch choices)"
  by (simp add: FeatureSelector_new_def select_loop_Some last_eligible_def)

lemma instantiate_all_Some:
  "instantiate_all (Some ch) choices fs decls = Inr (fs @ instances ch choices decls)"
  by (induction "Some ch" choices fs decls rule: instantiate_all.induct)
     (simp_all add: instances_def FeatureSelector_new_Some)


lemma levels_total_iff:
  "levels_total d \<longleftrightarrow> dd_default d \<or> (\<forall>i\<in>{1..20}. dd_items d i \<noteq> None)"
  by (simp add: levels_total_def list_all_iff)

lemma extend_levels_Some:
  "distinct lvls \<Longrightarrow> dd_default d \<or> (\<forall>i\<in>set lvls. dd_items d i \<noteq> None) \<Longrightarrow>
     extend_levels (Some ch) choices decl d lvls =
       Inr (d\<lparr>dd_items :=
              (\<lambda>i. if i \<in> set lvls
                   then Some (dd_get (dd_items d) i @ instances ch choices (decl i))
                   else dd_items d i)\<rparr>)"
proof (induction lvls arbitrary: d)
  case Nil show ?case by simp
next
  case (Cons i lvls)
  define d' where
    "d' = d\<lparr>dd_items := (dd_items d)(i \<mapsto> dd_get (dd_items d) i @ instances ch choices (decl i))\<rparr>"
  from Cons.prems have g: "dict_get d i = Inr (dd_get (dd_items d) i)"
    by (auto simp: dict_get_def dd_get_def split: option.splits)
  from Cons.prems have ni: "i \<notin> set lvls" and dl: "distinct lvls" by simp_all
  from Cons.prems have t: "dd_default d' \<or> (\<forall>j\<in>set lvls. dd_items d' j \<noteq> None)"
    by (auto simp: d'_def)
  have "(\<lambda>j. if j \<in> set lvls
             then Some (dd_get (dd_items d') j @ instances ch choices (decl j))
             else dd_items d' j) =
        (\<lambda>j. if j \<in> set (i # lvls)
             then Some (dd_get (dd_items d) j @ instances ch choices (decl j))
             else dd_items d j)"
    using ni by (auto simp: fun_eq_iff d'_def dd_get_def)
  then have "extend_levels (Some ch) choices decl d' lvls =
       Inr (d\<lparr>dd_items :=
              (\<lambda>j. if j \<in> set (i # lvls)
                   then Some (dd_get (dd_items d) j @ instances ch choices (decl j))
                   else dd_items d j)\<rparr>)"
    using Cons.IH[OF dl t] by (simp add: d'_def)
  then show ?case by (simp add: instantiate_all_Some g d'_def)
qed

lemma extend_levels_KeyError:
  "\<not> dd_default d \<Longrightarrow> \<exists>i\<in>set lvls. dd_items d i = None \<Longrightarrow>
     extend_levels (Some ch) choices decl d lvls = Inl KeyError"
proof (induction lvls arbitrary: d)
  case Nil then show ?case by simp
next
  case (Cons i lvls)
  show ?case
  proof (cases "dd_items d i")
    case None
    with Cons.prems show ?thesis by (simp add: instantiate_all_Some dict_get_def)
  next
    case (Some cur)
    define d' where
      "d' = d\<lparr>dd_items := (dd_items d)(i \<mapsto> cur @ instances ch choices (decl i))\<rparr>"
    from Cons.prems(2) Some obtain j where j: "j \<in> set lvls" "dd_items d j = None"
      by auto
    with Some have "j \<noteq> i" by auto
    with j have "\<exists>j\<in>set lvls. dd_items d' j = None" by (auto simp: d'_def)
    moreover from Cons.prems(1) have "\<not> dd_default d'" by (simp add: d'_def)
    ultimately have "extend_levels (Some ch) choices decl d' lvls = Inl KeyError"
      by (rule Cons.IH[rotated])
    then show ?thesis
      using Some by (simp add: instantiate_all_Some dict_get_def d'_def)
  qed
qed


lemma has_feature_setattr [simp]: "has_feature (setattr_owner ch a) ft = has_feature ch ft"
  by (simp add: has_feature_def setattr_owner_def)

lemma instances_setattr [simp]:
  "instances (setattr_owner ch a) choices decls = instances ch choices decls"
proof -
  have e: "eligible t (setattr_owner ch a) = eligible t ch" for t
    by (simp add: fun_eq_iff eligible_def split: option.splits)
  have g: "granted t (setattr_owner ch a) s = granted t ch s" for t s
    by (simp add: granted_def Feature_init_def setattr_owner_def split: option.splits)
  have l: "last_eligible t (setattr_owner ch a) choices = last_eligible t ch choices" for t
    by (simp add: last_eligible_def e g split: list.splits)
  have i: "Feature_init ft (Some (setattr_owner ch a)) = Feature_init ft (Some ch)" for ft
    by (simp add: Feature_init_def setattr_owner_def)
  have "instance_of (setattr_owner ch a) choices d = instance_of ch choices d" for d
    by (cases d) (simp_all add: l i)
  then have "instance_of (setattr_owner ch a) choices = instance_of ch choices"
    by (simp add: fun_eq_iff)
  then show ?thesis by (simp add: instances_def)
qed







lemma apply_subclass_KeyError:
  assumes "owner self = Some ch" and "subclass_obj self = Some sc"
    and "\<not> levels_total (features_by_level self)"
  shows "apply_subclass self choices = Inl KeyError"
proof -
  from assms(3) have n: "\<not> dd_default (features_by_level self)"
    and m: "\<exists>i\<in>set [1..20]. dd_items (features_by_level self) i = None"
    by (auto simp: levels_total_iff)
  show ?thesis
    using assms(1,2) extend_levels_KeyError[OF n m, of ch choices]
    by (simp add: apply_subclass_def)
qed









lemma select_loop_no_match:
  "\<forall>s\<in>set choices. sel_options t (lower s) = None \<Longrightarrow> select_loop t own nf choices = Inr nf"
  by (induction choices) simp_all





lemmas ex_defs = ex_archery_def ex_defense_def ex_second_wind_def ex_action_surge_def
  ex_improved_critical_def ex_fighting_style_def ex_champion_def ex_eldritch_knight_def
  ex_fighter_def ex_character_def ex_hold_person_def ex_guarded_fighter_def
  ex_fighter_instance_def

lemmas eval_defs = CharClass_init_def FeatureSelector_new_def lower_def lower_char_def
  has_feature_def Feature_init_def upto.simps select_subclass_def apply_subclass_def
  SubClass_init_def dd_get_def dict_get_def Let_def placeholder_def setattr_owner_def
  py_or_def py_or_table_def

section \<open>Spells\<close>

text \<open>
  C8. Two spells compare equal exactly when their names and their levels agree; changing
  any other attribute of either spell (casting time, range, components, materials,
  duration, ritual, the concentration flag, school, classes) does not change the
  comparison.
\<close>

theorem Spell_eq_name_level:
  "(Spell_eq a b \<longleftrightarrow> sp_name a = sp_name b \<and> sp_level a = sp_level b) \<and>
   Spell_eq
     (a\<lparr>sp_casting_time := t1, sp_casting_range := r1, sp_components := c1,
        sp_materials := m1, sp_duration := d1, sp_ritual := i1,
        sp_concentration_flag := k1, sp_magic_school := s1, sp_classes := l1\<rparr>)
     (b\<lparr>sp_casting_time := t2, sp_casting_range := r2, sp_components := c2,
        sp_materials := m2, sp_duration := d2, sp_ritual := i2,
        sp_concentration_flag := k2, sp_magic_school := s2, sp_classes := l2\<rparr>)
     = Spell_eq a b"
  by (simp add: Spell_eq_def)

theorem Spell_eq_name_level_witness:
  "Spell_eq (ex_hold_person\<lparr>sp_ritual := True\<rparr>) ex_hold_person \<and>
   \<not> Spell_eq (ex_hold_person\<lparr>sp_level := 3\<rparr>) ex_hold_person"
  using Spell_eq_name_level[of "ex_hold_person\<lparr>sp_ritual := True\<rparr>" ex_hold_person]
    Spell_eq_name_level[of "ex_hold_person\<lparr>sp_level := 3\<rparr>" ex_hold_person]
  by (simp add: ex_hold_person_def)

text \<open>
  C7, as claimed: after the setter has been called with \<open>False\<close>, reading
  \<open>concentration\<close> gives \<open>False\<close> even when the duration text contains
  "concentration". It does not: for Hold Person, whose duration is "Concentration, up to
  1 minute", the property still reads true after the setter was called with \<open>False\<close>.
\<close>

theorem concentration_override_False_counterexample:
  "concentration (set_concentration ex_hold_person False) \<noteq> False"
  by (simp add: concentration_def set_concentration_def ex_hold_person_def lower_def
      lower_char_def)

text \<open>
  C7, amended. After the setter has been called with \<open>v\<close>, \<open>concentration\<close> is true
  exactly when \<open>v\<close> is true or the lowered duration text contains "concentration": the
  flag can switch concentration on, never off. With the flag \<open>False\<close>, \<open>concentration\<close>
  is true exactly when the lowered duration text contains "concentration".
\<close>

theorem concentration_duration_or_flag:
  "(concentration (set_concentration s v) \<longleftrightarrow>
      v \<or> (\<exists>p q. lower (sp_duration s) = p @ ''concentration'' @ q)) \<and>
   (concentration (s\<lparr>sp_concentration_flag := False\<rparr>) \<longleftrightarrow>
      (\<exists>p q. lower (sp_duration s) = p @ ''concentration'' @ q))"
  by (auto simp add: concentration_def set_concentration_def py_in_iff)

theorem concentration_duration_or_flag_witness:
  "concentration (set_concentration (ex_hold_person\<lparr>sp_duration := ''1 hour''\<rparr>) True) \<and>
   \<not> concentration (set_concentration (ex_hold_person\<lparr>sp_duration := ''1 hour''\<rparr>) False)"
  using concentration_duration_or_flag[of "ex_hold_person\<lparr>sp_duration := ''1 hour''\<rparr>" True]
    concentration_duration_or_flag[of "ex_hold_person\<lparr>sp_duration := ''1 hour''\<rparr>" False]
  by (simp add: py_in_iff[symmetric] lower_def lower_char_def ex_hold_person_def)

section \<open>Selector resolution\<close>

text \<open>
  C6. When no choice text, lowered, is a key of the selector's options, resolution
  returns the placeholder for any owner (also for no owner) and raises nothing; the
  placeholder carries the selector's name, source and docstring and is flagged
  \<open>needs_implementation\<close>.
\<close>

theorem FeatureSelector_no_match_placeholder:
  assumes "\<forall>s\<in>set choices. sel_options t (lower s) = None"
  shows "FeatureSelector_new t own choices = Inr (placeholder t) \<and>
         f_name (placeholder t) = sel_name t \<and> f_source (placeholder t) = sel_source t \<and>
         f_doc (placeholder t) = sel_doc t \<and> f_needs_implementation (placeholder t) = True"
  using assms by (simp add: FeatureSelector_new_def select_loop_no_match placeholder_def)

theorem FeatureSelector_no_match_placeholder_witness:
  "FeatureSelector_new ex_fighting_style None [''Dueling'', ''Protection'']
     = Inr (placeholder ex_fighting_style) \<and>
   f_name (placeholder ex_fighting_style) = ''Fighting Style (Select One)'' \<and>
   f_needs_implementation (placeholder ex_fighting_style) = True"
proof -
  have h: "\<forall>s\<in>set [''Dueling'', ''Protection'']. sel_options ex_fighting_style (lower s) = None"
    by (simp add: ex_fighting_style_def lower_def lower_char_def)
  from FeatureSelector_no_match_placeholder[OF h, of None] show ?thesis
    by (simp add: ex_fighting_style_def)
qed

text \<open>
  C2, as claimed: the first choice that matches an option the owner does not hold yet
  decides the result. It does not: with the choices "Archery" and "Defense", both options
  of the fighting-style selector and neither held by the owner, the first such choice is
  "Archery" and the selector returns the feature "Defense".
\<close>

theorem FeatureSelector_first_match_counterexample:
  "FeatureSelector_new ex_fighting_style (Some ex_character) ex_choices
     \<noteq> Inr (first_eligible ex_fighting_style ex_character ex_choices) \<and>
   f_name (first_eligible ex_fighting_style ex_character ex_choices) = ''Archery'' \<and>
   map_sum id f_name (FeatureSelector_new ex_fighting_style (Some ex_character) ex_choices)
     = Inr ''Defense''"
  by (simp add: ex_choices_def FeatureSelector_new_def first_eligible_def eligible_def
      granted_def has_feature_def Feature_init_def lower_def lower_char_def ex_defs)

text \<open>
  C2, amended. Resolution for a character scans every choice text in order and does not
  stop at a match: a choice whose lowered form is a key of the options is skipped when
  the owner already holds that option's feature, and otherwise that option's feature is
  instantiated with the selector's source and replaces the result so far. The result is
  therefore decided by the last choice that matches an option not yet held, and is the
  placeholder when there is none.
\<close>

theorem FeatureSelector_last_match:
  "FeatureSelector_new t (Some ch) choices = Inr (last_eligible t ch choices)"
  by (rule FeatureSelector_new_Some)

theorem FeatureSelector_last_match_witness:
  "FeatureSelector_new ex_fighting_style (Some ex_character) ex_choices
     = Inr (granted ex_fighting_style ex_character ''Defense'')"
  using FeatureSelector_last_match[of ex_fighting_style ex_character ex_choices]
  by (simp add: ex_choices_def last_eligible_def eligible_def has_feature_def lower_def
      lower_char_def ex_defs)

section \<open>Class construction and queries\<close>

text \<open>
  C10. Constructing a class with the owner \<open>None\<close>, the default of the parameter, fails
  with \<open>AttributeError\<close> for every level and every other argument, because the
  constructor sets the class as an attribute on the owner before anything else; so a
  construction that succeeds was given an owner.
\<close>

theorem CharClass_init_needs_owner:
  "CharClass_init cls lvl None sub choices params = Inl AttributeError \<and>
   (\<forall>r. CharClass_init cls lvl own sub choices params = Inr r \<longrightarrow> own \<noteq> None)"
proof -
  have n: "CharClass_init cls lvl None sub choices params = Inl AttributeError"
    by (simp add: CharClass_init_def)
  then show ?thesis by (cases own) simp_all
qed

theorem CharClass_init_needs_owner_witness:
  "CharClass_init ex_fighter 3 None (Some ''champion'') ex_choices [] = Inl AttributeError \<and>
   ex_champion_level3 = Inr (projr ex_champion_level3) \<and> Some ex_character \<noteq> None"
proof -
  have e: "ex_champion_level3 = Inr (projr ex_champion_level3)"
    by (simp add: ex_champion_level3_def ex_choices_def eval_defs ex_defs)
  from CharClass_init_needs_owner[of ex_fighter 3 "Some ''champion''" ex_choices "[]"
      "Some ex_character"] e
  show ?thesis by (simp add: ex_champion_level3_def)
qed

text \<open>
  C9. \<open>spell_slots\<close> returns 0 for every spell level when the class has no spell-slot
  table. With a table it looks up the row of the class's current level and then the
  column: a missing row raises \<open>KeyError\<close> and a column outside the row raises
  \<open>IndexError\<close>, neither caught; a column inside the row gives its entry (a negative
  column counts from the end of the row, as Python indexing does).
\<close>

theorem spell_slots_lookup:
  "spell_slots (self\<lparr>spell_slots_by_level := None\<rparr>) n = Inr 0 \<and>
   spell_slots (self\<lparr>spell_slots_by_level := Some tbl\<rparr>) n =
     (case map_of tbl (level self) of
        None \<Rightarrow> Inl KeyError
      | Some row \<Rightarrow>
          if 0 \<le> n \<and> n < int (length row) then Inr (row ! nat n)
          else if - int (length row) \<le> n \<and> n < 0 then Inr (row ! nat (int (length row) + n))
          else Inl IndexError)"
  by (auto simp add: spell_slots_def py_index_def Let_def split: option.splits)

theorem spell_slots_lookup_witness:
  "spell_slots (ex_fighter_instance\<lparr>spell_slots_by_level := None\<rparr>) 1 = Inr 0 \<and>
   spell_slots (ex_fighter_instance\<lparr>spell_slots_by_level := Some ex_slots\<rparr>) 1 = Inr 2 \<and>
   spell_slots (ex_fighter_instance\<lparr>spell_slots_by_level := Some ex_slots\<rparr>) 3 = Inl IndexError \<and>
   spell_slots (ex_fighter_instance\<lparr>spell_slots_by_level := Some ex_slots, level := 2\<rparr>) 1
     = Inl KeyError"
  using spell_slots_lookup[of ex_fighter_instance 1 ex_slots]
    spell_slots_lookup[of ex_fighter_instance 3 ex_slots]
    spell_slots_lookup[of "ex_fighter_instance\<lparr>level := 2\<rparr>" 1 ex_slots]
  by (simp add: ex_fighter_instance_def ex_slots_def)










text \<open>
  C5, as claimed: after a subclass merge the class keeps its own \<open>spellcasting_ability\<close>
  and \<open>spell_slots_by_level\<close> whenever those were already set. It does not when the own
  value is set but false for \<open>or\<close>: a class declaring the ability \<open>False\<close> and an empty
  table takes the ability and the table of the Eldritch Knight, and merged with the
  Champion, which has no ability, it ends with the ability \<open>None\<close>.
\<close>

theorem apply_subclass_own_value_counterexample:
  "ex_guarded_knight = Inr (projr ex_guarded_knight) \<and>
   ct_spellcasting_ability ex_guarded_fighter = PyBool False \<and>
   spellcasting_ability (fst (projr ex_guarded_knight)) = PyStr ''intelligence'' \<and>
   ct_spell_slots_by_level ex_guarded_fighter = Some [] \<and>
   spell_slots_by_level (fst (projr ex_guarded_knight)) = Some ex_slots \<and>
   ex_guarded_champion = Inr (projr ex_guarded_champion) \<and>
   spellcasting_ability (fst (projr ex_guarded_champion)) = PyNone"
  by (simp add: ex_guarded_knight_def ex_guarded_champion_def ex_slots_def ex_choices_def
      eval_defs ex_defs)

text \<open>
  C5, amended. After a subclass merge on an instance owned by a character,
  \<open>spellcasting_ability\<close> and \<open>spell_slots_by_level\<close> are the class's own values when
  those are true for \<open>or\<close> (not \<open>None\<close>, not \<open>False\<close>, not empty), and the subclass's
  values otherwise; so \<open>is_spellcaster\<close> is true whenever the subclass defines
  \<open>spellcasting_ability\<close>, also when the base class does not. The merge completes when
  the instance's \<open>features_by_level\<close> can be read at every level from 1 to 20, as the
  dictionary that the constructor builds can; on a plain dictionary that lacks a level
  the merge raises \<open>KeyError\<close> before it reaches the spellcasting attributes.
\<close>

theorem apply_subclass_spellcasting:
  assumes "subclass_obj self = Some sc" and "owner self = Some ch"
  shows "(levels_total (features_by_level self) \<longrightarrow>
     (\<exists>self'. apply_subclass self choices = Inr self' \<and>
        spellcasting_ability self' =
          (if truthy (spellcasting_ability self) then spellcasting_ability self
           else sct_spellcasting_ability (sub_type sc)) \<and>
        spell_slots_by_level self' =
          (if table_truthy (spell_slots_by_level self) then spell_slots_by_level self
           else sct_spell_slots_by_level (sub_type sc)) \<and>
        (sct_spellcasting_ability (sub_type sc) \<noteq> PyNone \<longrightarrow> is_spellcaster self'))) \<and>
   (\<not> levels_total (features_by_level self) \<longrightarrow>
      apply_subclass self choices = Inl KeyError)"
proof (intro conjI impI)
  assume t: "levels_total (features_by_level self)"
  have d: "distinct [1..20::int]" by simp
  from t have t': "dd_default (features_by_level self) \<or>
     (\<forall>i\<in>set [1..20]. dd_items (features_by_level self) i \<noteq> None)"
    by (simp add: levels_total_iff)
  have o: "py_or_table a b = (if table_truthy a then a else b)" for a b
    by (simp add: py_or_table_def table_truthy_def split: option.splits list.splits)
  have n: "truthy v \<Longrightarrow> v \<noteq> PyNone" for v by (cases v) simp_all
  show "\<exists>self'. apply_subclass self choices = Inr self' \<and>
        spellcasting_ability self' =
          (if truthy (spellcasting_ability self) then spellcasting_ability self
           else sct_spellcasting_ability (sub_type sc)) \<and>
        spell_slots_by_level self' =
          (if table_truthy (spell_slots_by_level self) then spell_slots_by_level self
           else sct_spell_slots_by_level (sub_type sc)) \<and>
        (sct_spellcasting_ability (sub_type sc) \<noteq> PyNone \<longrightarrow> is_spellcaster self')"
    using assms n[of "spellcasting_ability self"] extend_levels_Some[OF d t', of ch choices]
    by (simp add: apply_subclass_def py_or_def o is_spellcaster_def)
next
  assume "\<not> levels_total (features_by_level self)"
  then show "apply_subclass self choices = Inl KeyError"
    by (rule apply_subclass_KeyError[OF assms(2,1)])
qed

theorem apply_subclass_spellcasting_witness:
  "map_sum id (\<lambda>s. (spellcasting_ability s, spell_slots_by_level s, is_spellcaster s))
     (apply_subclass ex_fighter_instance ex_choices)
     = Inr (PyStr ''intelligence'', Some ex_slots, True)"
proof -
  have h1: "subclass_obj ex_fighter_instance
              = Some (SubClass_init ex_eldritch_knight (Some ex_character))"
    and h2: "owner ex_fighter_instance = Some ex_character"
    by (simp_all add: ex_fighter_instance_def)
  have h3: "levels_total (features_by_level ex_fighter_instance)"
    by (simp add: ex_fighter_instance_def levels_total_def)
  from apply_subclass_spellcasting[OF h1 h2, of ex_choices] h3 obtain s' where
    e: "apply_subclass ex_fighter_instance ex_choices = Inr s'" and
    a: "spellcasting_ability s' =
       (if truthy (spellcasting_ability ex_fighter_instance)
        then spellcasting_ability ex_fighter_instance
        else sct_spellcasting_ability
               (sub_type (SubClass_init ex_eldritch_knight (Some ex_character))))" and
    b: "spell_slots_by_level s' =
       (if table_truthy (spell_slots_by_level ex_fighter_instance)
        then spell_slots_by_level ex_fighter_instance
        else sct_spell_slots_by_level
               (sub_type (SubClass_init ex_eldritch_knight (Some ex_character))))" and
    c: "sct_spellcasting_ability
           (sub_type (SubClass_init ex_eldritch_knight (Some ex_character))) \<noteq> PyNone
        \<longrightarrow> is_spellcaster s'"
    by blast
  show ?thesis unfolding e using a b c
    by (simp add: ex_fighter_instance_def SubClass_init_def ex_eldritch_knight_def
        table_truthy_def ex_slots_def)
qed

end
